theory Spec2Isabelle
  imports Complex_Main
begin

section \<open>The values of the program\<close>

text \<open>
  The module \<^verbatim>\<open>ppb_vector/vector2.py\<close> defines one class, \<^verbatim>\<open>Vector2\<close>, an
  immutable pair of Python floats, and two module-level helpers that pick the
  class of the result of a binary operator.

  A Python float is modelled by \<open>pyfloat\<close>: a finite double other than the
  negative zero is the real number it denotes (\<open>Fin 0\<close> is the positive zero),
  and the negative zero, the two infinities and NaN are values of their own,
  since comparison, arithmetic and \<^verbatim>\<open>atan2\<close> treat them differently. Float
  arithmetic is exact in this model: it neither rounds nor overflows, and no
  theorem below speaks about rounding error.
\<close>

datatype pyfloat = Fin real | NZero | PInf | NInf | NaN

text \<open>The exceptions that the modelled code can raise.\<close>

datatype error =
  TypeError | ValueError | AttributeError | ZeroDivisionError | KeyError | OverflowError

text \<open>
  A class is its name and the names of its ancestors in the order of its method
  resolution order, which ends with \<^verbatim>\<open>object\<close>; \<^verbatim>\<open>__mro__\<close> is the class
  itself followed by these ancestors.
\<close>

record pyclass =
  cname :: string
  ancestors :: "string list"

definition mro :: "pyclass \<Rightarrow> string list" where
  "mro c = cname c # ancestors c"

definition Vector2_cls :: pyclass where
  "Vector2_cls = \<lparr>cname = ''Vector2'', ancestors = [''object'']\<rparr>"

definition float_cls :: pyclass where
  "float_cls = \<lparr>cname = ''float'', ancestors = [''object'']\<rparr>"

definition int_cls :: pyclass where
  "int_cls = \<lparr>cname = ''int'', ancestors = [''object'']\<rparr>"

definition tuple_cls :: pyclass where
  "tuple_cls = \<lparr>cname = ''tuple'', ancestors = [''object'']\<rparr>"

definition dict_cls :: pyclass where
  "dict_cls = \<lparr>cname = ''dict'', ancestors = [''object'']\<rparr>"

definition issubclass :: "pyclass \<Rightarrow> pyclass \<Rightarrow> bool" where
  "issubclass c d = (cname d \<in> set (mro c))"

text \<open>
  An instance of \<^verbatim>\<open>Vector2\<close> or of one of its subclasses: its concrete class
  (\<^verbatim>\<open>type(self)\<close>) and the two slots. Instances are immutable, so an
  instance is identified with this value: ``the same instance'' is the same
  value, class included.
\<close>

record vec =
  vcls :: pyclass
  vx :: pyfloat
  vy :: pyfloat

text \<open>
  The Python values that reach the code:
  a vector instance, a float, an int, a sequence (tuple or list) of any
  length, a mapping with string keys (an association list, the first
  binding of a key counting), and any other object that is neither a string,
  a sequence nor a mapping. Such an object is described by its class and by
  what its float protocol yields: a float, or the exception raised
  (\<^verbatim>\<open>float(None)\<close> raises \<open>TypeError\<close>).
\<close>

datatype pyval =
    VecV vec
  | FloatV pyfloat
  | IntV int
  | TupleV "pyval list"
  | DictV "(string \<times> pyval) list"
  | ObjV pyclass "error + pyfloat"

fun type_of :: "pyval \<Rightarrow> pyclass" where
  "type_of (VecV v) = vcls v"
| "type_of (FloatV _) = float_cls"
| "type_of (IntV _) = int_cls"
| "type_of (TupleV _) = tuple_cls"
| "type_of (DictV _) = dict_cls"
| "type_of (ObjV c _) = c"

text \<open>
  An int converts to a float when it rounds to a finite double, that is when
  its magnitude is below \<^verbatim>\<open>2**1024 - 2**970\<close>, the midpoint of the largest double and
  \<^verbatim>\<open>2**1024\<close>; from there on \<^verbatim>\<open>float\<close> raises \<^verbatim>\<open>OverflowError\<close>.
\<close>

definition float_int_limit :: int where
  "float_int_limit = 2 ^ 1024 - 2 ^ 970"

text \<open>
  \<^verbatim>\<open>float(x)\<close>. A vector, a sequence and a mapping have no float protocol.
\<close>

fun to_float :: "pyval \<Rightarrow> error + pyfloat" where
  "to_float (FloatV f) = Inr f"
| "to_float (IntV i) =
     (if \<bar>i\<bar> < float_int_limit then Inr (Fin (of_int i)) else Inl OverflowError)"
| "to_float (ObjV _ r) = r"
| "to_float (VecV _) = Inl TypeError"
| "to_float (TupleV _) = Inl TypeError"
| "to_float (DictV _) = Inl TypeError"

text \<open>The value returned by an operator method: a result, or \<^verbatim>\<open>NotImplemented\<close>.\<close>

datatype 'a soft = NotImplemented | Value 'a

section \<open>Float arithmetic\<close>

text \<open>
  The sign bit, as \<^verbatim>\<open>copysign\<close> and the sign rules of \<open>*\<close> and \<open>/\<close> read it.
  The sign bit of a NaN is not represented; a NaN counts as positive.
\<close>

fun is_neg :: "pyfloat \<Rightarrow> bool" where
  "is_neg (Fin a) = (a < 0)"
| "is_neg NZero = True"
| "is_neg NInf = True"
| "is_neg PInf = False"
| "is_neg NaN = False"

fun is_zero :: "pyfloat \<Rightarrow> bool" where
  "is_zero (Fin a) = (a = 0)"
| "is_zero NZero = True"
| "is_zero _ = False"

fun is_inf :: "pyfloat \<Rightarrow> bool" where
  "is_inf PInf = True"
| "is_inf NInf = True"
| "is_inf _ = False"

fun is_finite :: "pyfloat \<Rightarrow> bool" where
  "is_finite (Fin _) = True"
| "is_finite NZero = True"
| "is_finite _ = False"

text \<open>The number that a finite float denotes (both zeros denote \<open>0\<close>).\<close>

fun fval :: "pyfloat \<Rightarrow> real" where
  "fval (Fin a) = a"
| "fval _ = 0"

definition inf_signed :: "bool \<Rightarrow> pyfloat" where
  "inf_signed neg = (if neg then NInf else PInf)"

definition zero_signed :: "bool \<Rightarrow> pyfloat" where
  "zero_signed neg = (if neg then NZero else Fin 0)"

fun fneg :: "pyfloat \<Rightarrow> pyfloat" where
  "fneg (Fin a) = (if a = 0 then NZero else Fin (- a))"
| "fneg NZero = Fin 0"
| "fneg PInf = NInf"
| "fneg NInf = PInf"
| "fneg NaN = NaN"

fun fabs :: "pyfloat \<Rightarrow> pyfloat" where
  "fabs (Fin a) = Fin \<bar>a\<bar>"
| "fabs NZero = Fin 0"
| "fabs PInf = PInf"
| "fabs NInf = PInf"
| "fabs NaN = NaN"

text \<open>
  A sum that is zero is the positive zero, unless both terms are the negative
  zero.
\<close>

fun fadd :: "pyfloat \<Rightarrow> pyfloat \<Rightarrow> pyfloat" where
  "fadd NaN _ = NaN"
| "fadd _ NaN = NaN"
| "fadd (Fin a) (Fin b) = Fin (a + b)"
| "fadd NZero NZero = NZero"
| "fadd NZero b = b"
| "fadd a NZero = a"
| "fadd PInf NInf = NaN"
| "fadd NInf PInf = NaN"
| "fadd PInf _ = PInf"
| "fadd _ PInf = PInf"
| "fadd NInf _ = NInf"
| "fadd _ NInf = NInf"

definition fsub :: "pyfloat \<Rightarrow> pyfloat \<Rightarrow> pyfloat" where
  "fsub a b = fadd a (fneg b)"

text \<open>
  The sign of a product or quotient is the exclusive or of the signs of the
  operands, also when the result is a zero.
\<close>

fun fmul :: "pyfloat \<Rightarrow> pyfloat \<Rightarrow> pyfloat" where
  "fmul NaN _ = NaN"
| "fmul _ NaN = NaN"
| "fmul a b =
     (if is_inf a \<or> is_inf b
      then (if is_zero a \<or> is_zero b then NaN else inf_signed (is_neg a \<noteq> is_neg b))
      else if fval a * fval b = 0 then zero_signed (is_neg a \<noteq> is_neg b)
      else Fin (fval a * fval b))"

text \<open>
  \<^verbatim>\<open>a / b\<close> on floats: Python tests the divisor first and raises
  \<^verbatim>\<open>ZeroDivisionError\<close> when it is a zero of either sign, whatever the
  dividend. \<open>fdiv\<close> is the quotient for a divisor that is not zero.
\<close>

fun fdiv :: "pyfloat \<Rightarrow> pyfloat \<Rightarrow> pyfloat" where
  "fdiv NaN _ = NaN"
| "fdiv _ NaN = NaN"
| "fdiv a b =
     (if is_inf a then (if is_inf b then NaN else inf_signed (is_neg a \<noteq> is_neg b))
      else if is_inf b then zero_signed (is_neg a \<noteq> is_neg b)
      else if fval a / fval b = 0 then zero_signed (is_neg a \<noteq> is_neg b)
      else Fin (fval a / fval b))"

definition float_truediv :: "pyfloat \<Rightarrow> pyfloat \<Rightarrow> error + pyfloat" where
  "float_truediv a b = (if is_zero b then Inl ZeroDivisionError else Inr (fdiv a b))"

text \<open>Comparisons: false with a NaN; the two zeros are equal.\<close>

fun flt :: "pyfloat \<Rightarrow> pyfloat \<Rightarrow> bool" where
  "flt NaN _ = False"
| "flt _ NaN = False"
| "flt _ NInf = False"
| "flt PInf _ = False"
| "flt NInf _ = True"
| "flt _ PInf = True"
| "flt a b = (fval a < fval b)"

definition feq :: "pyfloat \<Rightarrow> pyfloat \<Rightarrow> bool" where
  "feq a b = (a \<noteq> NaN \<and> b \<noteq> NaN \<and> (a = b \<or> (is_zero a \<and> is_zero b)))"

definition fle :: "pyfloat \<Rightarrow> pyfloat \<Rightarrow> bool" where
  "fle a b = (flt a b \<or> feq a b)"

definition fgt :: "pyfloat \<Rightarrow> pyfloat \<Rightarrow> bool" where
  "fgt a b = flt b a"

subsection \<open>The functions of \<^verbatim>\<open>math\<close> that the module imports\<close>

definition hypot :: "pyfloat \<Rightarrow> pyfloat \<Rightarrow> pyfloat" where
  "hypot a b =
     (if is_inf a \<or> is_inf b then PInf
      else if a = NaN \<or> b = NaN then NaN
      else Fin (sqrt (fval a * fval a + fval b * fval b)))"

text \<open>The angle of the point \<open>(x, y)\<close> for two numbers that are not zero.\<close>

definition atan2_real :: "real \<Rightarrow> real \<Rightarrow> real" where
  "atan2_real y x =
     (if 0 < x then arctan (y / x)
      else if 0 \<le> y then arctan (y / x) + pi
      else arctan (y / x) - pi)"

text \<open>
  \<^verbatim>\<open>math.atan2(y, x)\<close> with the special cases of C's \<^verbatim>\<open>atan2\<close>: for a zero
  \<open>y\<close> the result is a zero or \<open>\<plusminus>pi\<close>, decided by the sign of \<open>x\<close> (the sign bit
  when \<open>x\<close> is a zero) and carrying the sign of \<open>y\<close>; for a zero \<open>x\<close> and another
  \<open>y\<close> it is \<open>\<plusminus>pi/2\<close>.
\<close>

fun atan2 :: "pyfloat \<Rightarrow> pyfloat \<Rightarrow> pyfloat" where
  "atan2 NaN _ = NaN"
| "atan2 _ NaN = NaN"
| "atan2 PInf PInf = Fin (pi / 4)"
| "atan2 NInf PInf = Fin (- (pi / 4))"
| "atan2 PInf NInf = Fin (3 * pi / 4)"
| "atan2 NInf NInf = Fin (- (3 * pi / 4))"
| "atan2 PInf _ = Fin (pi / 2)"
| "atan2 NInf _ = Fin (- (pi / 2))"
| "atan2 y PInf = zero_signed (is_neg y)"
| "atan2 y NInf = Fin (if is_neg y then - pi else pi)"
| "atan2 y x =
     (if is_zero y
      then (if is_neg x then Fin (if is_neg y then - pi else pi) else zero_signed (is_neg y))
      else if is_zero x then Fin (if is_neg y then - (pi / 2) else pi / 2)
      else Fin (atan2_real (fval y) (fval x)))"

fun degrees :: "pyfloat \<Rightarrow> pyfloat" where
  "degrees (Fin a) = Fin (a * (180 / pi))"
| "degrees a = a"

fun radians :: "pyfloat \<Rightarrow> pyfloat" where
  "radians (Fin a) = Fin (a * (pi / 180))"
| "radians a = a"

text \<open>\<^verbatim>\<open>math.cos\<close> and \<^verbatim>\<open>math.sin\<close> raise \<^verbatim>\<open>ValueError\<close> at an infinity.\<close>

fun math_cos :: "pyfloat \<Rightarrow> error + pyfloat" where
  "math_cos (Fin a) = Inr (Fin (cos a))"
| "math_cos NZero = Inr (Fin 1)"
| "math_cos NaN = Inr NaN"
| "math_cos _ = Inl ValueError"

fun math_sin :: "pyfloat \<Rightarrow> error + pyfloat" where
  "math_sin (Fin a) = Inr (Fin (sin a))"
| "math_sin NZero = Inr NZero"
| "math_sin NaN = Inr NaN"
| "math_sin _ = Inl ValueError"

fun math_sqrt :: "pyfloat \<Rightarrow> error + pyfloat" where
  "math_sqrt (Fin a) = (if a < 0 then Inl ValueError else Inr (Fin (sqrt a)))"
| "math_sqrt NZero = Inr NZero"
| "math_sqrt PInf = Inr PInf"
| "math_sqrt NInf = Inl ValueError"
| "math_sqrt NaN = Inr NaN"

text \<open>\<^verbatim>\<open>copysign(a, b)\<close>: the magnitude of \<open>a\<close> with the sign bit of \<open>b\<close>.\<close>

definition copysign :: "pyfloat \<Rightarrow> pyfloat \<Rightarrow> pyfloat" where
  "copysign a b = (if is_neg b then fneg (fabs a) else fabs a)"

section \<open>The class \<^verbatim>\<open>Vector2\<close>\<close>

subsection \<open>Result-type resolution\<close>

text \<open>
  \<^verbatim>\<open>_find_lowest_type\<close>: the class with more classes in its MRO, the left one
  on a tie. (The cache of \<^verbatim>\<open>lru_cache\<close> does not change the result.)
\<close>

definition find_lowest_type :: "pyclass \<Rightarrow> pyclass \<Rightarrow> pyclass" where
  "find_lowest_type left right =
     (if card (set (mro left)) > card (set (mro right)) then left
      else if card (set (mro right)) > card (set (mro left)) then right
      else left)"

definition find_lowest_vector :: "pyclass \<Rightarrow> pyclass \<Rightarrow> pyclass" where
  "find_lowest_vector left right =
     (if left = right then left
      else if \<not> issubclass left Vector2_cls then right
      else if \<not> issubclass right Vector2_cls then left
      else find_lowest_type left right)"

subsection \<open>Construction and coercion\<close>

text \<open>
  The end of \<^verbatim>\<open>__init__\<close> (lines 103 to 115): both coordinates go through
  \<^verbatim>\<open>float\<close>; a \<^verbatim>\<open>ValueError\<close> is turned into a \<^verbatim>\<open>TypeError\<close>, any other
  exception passes.
\<close>

definition set_coords :: "pyclass \<Rightarrow> pyval \<Rightarrow> pyval \<Rightarrow> error + vec" where
  "set_coords cls x y =
     (case to_float x of
        Inl ValueError \<Rightarrow> Inl TypeError
      | Inl e \<Rightarrow> Inl e
      | Inr fx \<Rightarrow>
          (case to_float y of
             Inl ValueError \<Rightarrow> Inl TypeError
           | Inl e \<Rightarrow> Inl e
           | Inr fy \<Rightarrow> Inr \<lparr>vcls = cls, vx = fx, vy = fy\<rparr>))"

text \<open>
  \<^verbatim>\<open>cls(a, b)\<close>, a call of the constructor with two positional arguments: of
  the checks of \<^verbatim>\<open>__init__\<close> only the branch \<^verbatim>\<open>len(args) == 2\<close> applies
  (lemma \<open>Vector2_init_two\<close> below shows that \<open>Vector2_init\<close> agrees).
\<close>

definition construct :: "pyclass \<Rightarrow> pyval \<Rightarrow> pyval \<Rightarrow> error + vec" where
  "construct cls a b = set_coords cls a b"

text \<open>
  \<^verbatim>\<open>'x' in value\<close>, \<^verbatim>\<open>value['x']\<close> and \<^verbatim>\<open>len(value)\<close> on a mapping.
\<close>

definition dict_len :: "(string \<times> pyval) list \<Rightarrow> nat" where
  "dict_len kvs = card (set (map fst kvs))"

definition dict_has :: "(string \<times> pyval) list \<Rightarrow> string \<Rightarrow> bool" where
  "dict_has kvs k = (k \<in> set (map fst kvs))"

definition dict_get :: "(string \<times> pyval) list \<Rightarrow> string \<Rightarrow> error + pyval" where
  "dict_get kvs k = (case map_of kvs k of None \<Rightarrow> Inl KeyError | Some v \<Rightarrow> Inr v)"

text \<open>
  \<^verbatim>\<open>convert\<close>, a class method, so \<open>cls\<close> is \<^verbatim>\<open>Vector2\<close> or a subclass. Only
  a vector instance can be an instance of \<open>cls\<close>, and every vector instance
  is an instance of \<^verbatim>\<open>Vector2\<close>.
\<close>

fun Vector2_convert :: "pyclass \<Rightarrow> pyval \<Rightarrow> error + vec" where
  "Vector2_convert cls (VecV v) =
     (if issubclass (vcls v) cls then Inr v
      else construct cls (FloatV (vx v)) (FloatV (vy v)))"
| "Vector2_convert cls (TupleV xs) =
     (if length xs = 2 then construct cls (xs ! 0) (xs ! 1) else Inl ValueError)"
| "Vector2_convert cls (DictV kvs) =
     (if dict_has kvs ''x'' \<and> dict_has kvs ''y'' \<and> dict_len kvs = 2
      then (case dict_get kvs ''x'' of
              Inl e \<Rightarrow> Inl e
            | Inr a \<Rightarrow> (case dict_get kvs ''y'' of
                          Inl e \<Rightarrow> Inl e
                        | Inr b \<Rightarrow> construct cls a b))
      else Inl ValueError)"
| "Vector2_convert cls _ = Inl ValueError"

text \<open>
  \<^verbatim>\<open>__init__(self, *args, **kwargs)\<close> on a fresh instance of \<open>cls\<close>. The third
  check means to raise \<^verbatim>\<open>TypeError\<close>, but its message calls
  \<^verbatim>\<open>kwargs.keys().join\<close>, and a \<^verbatim>\<open>dict_keys\<close> object has no attribute
  \<^verbatim>\<open>join\<close>: evaluating the message raises \<^verbatim>\<open>AttributeError\<close>.
\<close>

definition Vector2_init :: "pyclass \<Rightarrow> pyval list \<Rightarrow> (string \<times> pyval) list \<Rightarrow> error + vec" where
  "Vector2_init cls args kwargs =
     (if args \<noteq> [] \<and> kwargs \<noteq> [] then Inl TypeError
      else if (args = [] \<and> kwargs = []) \<or> length args > 2 then Inl TypeError
      else if kwargs \<noteq> [] \<and> set (map fst kwargs) \<noteq> {''x'', ''y''} then Inl AttributeError
      else if kwargs \<noteq> [] then
        (case dict_get kwargs ''x'' of
           Inl e \<Rightarrow> Inl e
         | Inr a \<Rightarrow> (case dict_get kwargs ''y'' of
                       Inl e \<Rightarrow> Inl e
                     | Inr b \<Rightarrow> set_coords cls a b))
      else if length args = 1 then
        (case Vector2_convert Vector2_cls (args ! 0) of
           Inl e \<Rightarrow> Inl e
         | Inr v \<Rightarrow> set_coords cls (FloatV (vx v)) (FloatV (vy v)))
      else set_coords cls (args ! 0) (args ! 1))"

subsection \<open>Accessors\<close>

definition Vector2_length :: "vec \<Rightarrow> pyfloat" where
  "Vector2_length self = hypot (vx self) (vy self)"

definition Vector2_asdict :: "vec \<Rightarrow> (string \<times> pyval) list" where
  "Vector2_asdict self = [(''x'', FloatV (vx self)), (''y'', FloatV (vy self))]"

subsection \<open>Arithmetic\<close>

definition Vector2_add :: "vec \<Rightarrow> pyval \<Rightarrow> error + vec soft" where
  "Vector2_add self other =
     (let rtype = find_lowest_vector (type_of other) (vcls self) in
      case Vector2_convert Vector2_cls other of
        Inl ValueError \<Rightarrow> Inr NotImplemented
      | Inl e \<Rightarrow> Inl e
      | Inr other' \<Rightarrow>
          (case construct rtype (FloatV (fadd (vx self) (vx other')))
                                (FloatV (fadd (vy self) (vy other'))) of
             Inl e \<Rightarrow> Inl e
           | Inr w \<Rightarrow> Inr (Value w)))"

definition Vector2_sub :: "vec \<Rightarrow> pyval \<Rightarrow> error + vec soft" where
  "Vector2_sub self other =
     (let rtype = find_lowest_vector (type_of other) (vcls self) in
      case Vector2_convert Vector2_cls other of
        Inl ValueError \<Rightarrow> Inr NotImplemented
      | Inl e \<Rightarrow> Inl e
      | Inr other' \<Rightarrow>
          (case construct rtype (FloatV (fsub (vx self) (vx other')))
                                (FloatV (fsub (vy self) (vy other'))) of
             Inl e \<Rightarrow> Inl e
           | Inr w \<Rightarrow> Inr (Value w)))"

definition Vector2_dot :: "vec \<Rightarrow> pyval \<Rightarrow> error + pyfloat" where
  "Vector2_dot self other =
     (case Vector2_convert Vector2_cls other of
        Inl e \<Rightarrow> Inl e
      | Inr other' \<Rightarrow>
          Inr (fadd (fmul (vx self) (vx other')) (fmul (vy self) (vy other'))))"

definition Vector2_scale_by :: "vec \<Rightarrow> pyval \<Rightarrow> error + vec" where
  "Vector2_scale_by self other =
     (case to_float other of
        Inl e \<Rightarrow> Inl e
      | Inr k \<Rightarrow> construct (vcls self) (FloatV (fmul (vx self) k)) (FloatV (fmul (vy self) k)))"

text \<open>
  \<^verbatim>\<open>__mul__\<close> answers with a vector, a float or \<^verbatim>\<open>NotImplemented\<close>;
  \<^verbatim>\<open>__rmul__\<close> is the same function.
\<close>

datatype mul_result = MVec vec | MFloat pyfloat | MNotImplemented

fun is_float_or_int :: "pyval \<Rightarrow> bool" where
  "is_float_or_int (FloatV _) = True"
| "is_float_or_int (IntV _) = True"
| "is_float_or_int _ = False"

definition Vector2_mul :: "vec \<Rightarrow> pyval \<Rightarrow> error + mul_result" where
  "Vector2_mul self other =
     (if is_float_or_int other then
        (case Vector2_scale_by self other of Inl e \<Rightarrow> Inl e | Inr w \<Rightarrow> Inr (MVec w))
      else
        (case Vector2_dot self other of
           Inl TypeError \<Rightarrow> Inr MNotImplemented
         | Inl ValueError \<Rightarrow> Inr MNotImplemented
         | Inl e \<Rightarrow> Inl e
         | Inr d \<Rightarrow> Inr (MFloat d)))"

definition Vector2_rmul :: "vec \<Rightarrow> pyval \<Rightarrow> error + mul_result" where
  "Vector2_rmul self other = Vector2_mul self other"

definition Vector2_truediv :: "vec \<Rightarrow> pyval \<Rightarrow> error + vec" where
  "Vector2_truediv self other =
     (case to_float other of
        Inl e \<Rightarrow> Inl e
      | Inr k \<Rightarrow>
          (case float_truediv (vx self) k of
             Inl e \<Rightarrow> Inl e
           | Inr a \<Rightarrow>
               (case float_truediv (vy self) k of
                  Inl e \<Rightarrow> Inl e
                | Inr b \<Rightarrow> construct (vcls self) (FloatV a) (FloatV b))))"

definition Vector2_eq :: "vec \<Rightarrow> pyval \<Rightarrow> error + bool soft" where
  "Vector2_eq self other =
     (case Vector2_convert Vector2_cls other of
        Inl TypeError \<Rightarrow> Inr NotImplemented
      | Inl ValueError \<Rightarrow> Inr NotImplemented
      | Inl e \<Rightarrow> Inl e
      | Inr other' \<Rightarrow> Inr (Value (feq (vx self) (vx other') \<and> feq (vy self) (vy other'))))"

definition Vector2_neg :: "vec \<Rightarrow> error + vec" where
  "Vector2_neg self = Vector2_scale_by self (IntV (- 1))"

subsection \<open>Geometry\<close>

definition Vector2_angle :: "vec \<Rightarrow> pyval \<Rightarrow> error + pyfloat" where
  "Vector2_angle self other =
     (case Vector2_convert Vector2_cls other of
        Inl e \<Rightarrow> Inl e
      | Inr other' \<Rightarrow>
          (let rv = degrees (fsub (atan2 (vx other') (fneg (vy other')))
                                  (atan2 (vx self) (fneg (vy self))))
           in if fle rv (Fin (- 180)) then Inr (fadd rv (Fin 360))
              else if fgt rv (Fin 180) then Inr (fsub rv (Fin 360))
              else Inr rv))"

text \<open>
  \<^verbatim>\<open>_trig\<close>. \<^verbatim>\<open>math.radians\<close> takes its argument through the float protocol.
\<close>

definition Vector2_trig :: "pyval \<Rightarrow> error + (pyfloat \<times> pyfloat)" where
  "Vector2_trig angle =
     (case to_float angle of
        Inl e \<Rightarrow> Inl e
      | Inr a \<Rightarrow>
          (let r = radians a in
           case math_cos r of
             Inl e \<Rightarrow> Inl e
           | Inr r_cos \<Rightarrow>
               (case math_sin r of
                  Inl e \<Rightarrow> Inl e
                | Inr r_sin \<Rightarrow>
                    (if fgt (fabs r_cos) (fabs r_sin) then
                       (case math_sqrt (fsub (Fin 1) (fmul r_cos r_cos)) of
                          Inl e \<Rightarrow> Inl e
                        | Inr s \<Rightarrow> Inr (r_cos, copysign s r_sin))
                     else
                       (case math_sqrt (fsub (Fin 1) (fmul r_sin r_sin)) of
                          Inl e \<Rightarrow> Inl e
                        | Inr c \<Rightarrow> Inr (copysign c r_cos, r_sin))))))"

definition Vector2_rotate :: "vec \<Rightarrow> pyval \<Rightarrow> error + vec" where
  "Vector2_rotate self angle =
     (case Vector2_trig angle of
        Inl e \<Rightarrow> Inl e
      | Inr (r_cos, r_sin) \<Rightarrow>
          (let x = fsub (fmul (vx self) r_cos) (fmul (vy self) r_sin);
               y = fadd (fmul (vx self) r_sin) (fmul (vy self) r_cos)
           in construct (vcls self) (FloatV x) (FloatV y)))"

text \<open>
  \<^verbatim>\<open>scale_to\<close>. In \<^verbatim>\<open>length * self\<close> the left operand is a float, whose
  \<^verbatim>\<open>__mul__\<close> does not know vectors, so Python calls
  \<^verbatim>\<open>self.__rmul__(length)\<close>; the quotient is \<^verbatim>\<open>__truediv__\<close> of the
  product. For a float operand \<^verbatim>\<open>__rmul__\<close> answers with a vector (lemma
  \<open>Vector2_rmul_float\<close>); a product that is no vector has no
  \<^verbatim>\<open>__truediv__\<close> by a float that yields a vector.
\<close>

definition Vector2_scale_to :: "vec \<Rightarrow> pyval \<Rightarrow> error + vec" where
  "Vector2_scale_to self length' =
     (case to_float length' of
        Inl e \<Rightarrow> Inl e
      | Inr len \<Rightarrow>
          (if flt len (Fin 0) then Inl ValueError
           else if feq len (Fin 0) then construct (vcls self) (IntV 0) (IntV 0)
           else
             (case Vector2_rmul self (FloatV len) of
                Inl e \<Rightarrow> Inl e
              | Inr (MVec w) \<Rightarrow> Vector2_truediv w (FloatV (Vector2_length self))
              | Inr _ \<Rightarrow> Inl TypeError)))"

definition Vector2_normalize :: "vec \<Rightarrow> error + vec" where
  "Vector2_normalize self = Vector2_scale_to self (IntV 1)"

definition Vector2_truncate :: "vec \<Rightarrow> pyval \<Rightarrow> error + vec" where
  "Vector2_truncate self max_length =
     (case to_float max_length of
        Inl e \<Rightarrow> Inl e
      | Inr m \<Rightarrow>
          (if fle (Vector2_length self) m then Inr self
           else Vector2_scale_to self (FloatV m)))"

section \<open>Basic facts about the model\<close>

lemma construct_floats:
  "construct cls (FloatV a) (FloatV b) = Inr \<lparr>vcls = cls, vx = a, vy = b\<rparr>"
  by (simp add: construct_def set_coords_def)

lemma lt_float_int_limit: "i \<le> 1000 \<Longrightarrow> i < float_int_limit"
  by (simp add: float_int_limit_def)

lemma to_float_small_int: "\<bar>i\<bar> \<le> 1000 \<Longrightarrow> to_float (IntV i) = Inr (Fin (of_int i))"
  by (simp add: lt_float_int_limit)

lemma construct_ints:
  "\<bar>i\<bar> < float_int_limit \<Longrightarrow> \<bar>j\<bar> < float_int_limit \<Longrightarrow>
   construct cls (IntV i) (IntV j) = Inr \<lparr>vcls = cls, vx = Fin (of_int i), vy = Fin (of_int j)\<rparr>"
  by (simp add: construct_def set_coords_def)

lemma construct_zero:
  "construct cls (IntV 0) (IntV 0) = Inr \<lparr>vcls = cls, vx = Fin 0, vy = Fin 0\<rparr>"
  using construct_ints [of 0 0 cls] by (simp add: lt_float_int_limit)

lemma Vector2_init_two: "Vector2_init cls [a, b] [] = construct cls a b"
  by (simp add: Vector2_init_def construct_def)

lemma Vector2_scale_by_float:
  "Vector2_scale_by v (FloatV k) = Inr \<lparr>vcls = vcls v, vx = fmul (vx v) k, vy = fmul (vy v) k\<rparr>"
  by (simp add: Vector2_scale_by_def construct_floats)

lemma Vector2_rmul_float:
  "Vector2_rmul v (FloatV k) = Inr (MVec \<lparr>vcls = vcls v, vx = fmul (vx v) k, vy = fmul (vy v) k\<rparr>)"
  by (simp add: Vector2_rmul_def Vector2_mul_def Vector2_scale_by_float)

lemma float_truediv_zero: "is_zero b \<Longrightarrow> float_truediv a b = Inl ZeroDivisionError"
  by (simp add: float_truediv_def)

lemma hypot_zero: "is_zero a \<Longrightarrow> is_zero b \<Longrightarrow> hypot a b = Fin 0"
  by (cases a; cases b) (simp_all add: hypot_def)

lemma hypot_3_4: "hypot (Fin 3) (Fin 4) = Fin 5"
  using real_sqrt_abs [of 5] by (simp add: hypot_def)

section \<open>Division by zero\<close>

text \<open>
  Claim C1 says that dividing a vector by the scalar zero, and \<^verbatim>\<open>scale_to\<close> or
  \<^verbatim>\<open>normalize\<close> on the zero vector with a positive target length, silently
  yield infinite or NaN coordinates. The code divides with Python's \<^verbatim>\<open>/\<close> on
  floats, which raises \<^verbatim>\<open>ZeroDivisionError\<close> at a zero divisor: dividing the
  vector \<open>(1, 2)\<close> by \<open>0\<close> yields no vector.
\<close>

theorem truediv_zero_counterexample:
  "Vector2_truediv \<lparr>vcls = Vector2_cls, vx = Fin 1, vy = Fin 2\<rparr> (IntV 0) = Inl ZeroDivisionError"
  by (simp add: Vector2_truediv_def float_truediv_def lt_float_int_limit)

text \<open>
  Claim C1, as amended: dividing any vector by the scalar zero (the float, of
  either sign, or the int) raises \<^verbatim>\<open>ZeroDivisionError\<close>, and so do \<^verbatim>\<open>scale_to\<close>
  with a positive target length and \<^verbatim>\<open>normalize\<close> on a vector whose coordinates
  are both zero (of either sign); no infinite or NaN coordinates are produced.
\<close>

theorem division_by_zero_raises:
  "Vector2_truediv v (FloatV (Fin 0)) = Inl ZeroDivisionError
   \<and> Vector2_truediv v (FloatV NZero) = Inl ZeroDivisionError
   \<and> Vector2_truediv v (IntV 0) = Inl ZeroDivisionError
   \<and> (is_zero (vx v) \<and> is_zero (vy v) \<and> flt (Fin 0) len
        \<longrightarrow> Vector2_scale_to v (FloatV len) = Inl ZeroDivisionError)
   \<and> (is_zero (vx v) \<and> is_zero (vy v) \<longrightarrow> Vector2_normalize v = Inl ZeroDivisionError)"
proof -
  have d: "\<And>w k z. to_float k = Inr z \<Longrightarrow> is_zero z \<Longrightarrow> Vector2_truediv w k = Inl ZeroDivisionError"
    by (simp add: Vector2_truediv_def float_truediv_zero)
  have i0: "to_float (IntV 0) = Inr (Fin 0)" "to_float (IntV 1) = Inr (Fin 1)"
    using to_float_small_int [of 0] to_float_small_int [of 1] by simp_all
  have pos: "flt (Fin 0) len \<Longrightarrow> \<not> flt len (Fin 0) \<and> \<not> feq len (Fin 0)"
    by (cases len) (auto simp: feq_def)
  have q: "\<And>l. is_zero (vx v) \<Longrightarrow> is_zero (vy v) \<Longrightarrow>
        Vector2_truediv \<lparr>vcls = vcls v, vx = fmul (vx v) l, vy = fmul (vy v) l\<rparr>
          (FloatV (Vector2_length v)) = Inl ZeroDivisionError"
    by (rule d [of _ "Fin 0"]) (simp_all add: Vector2_length_def hypot_zero)
  have s: "is_zero (vx v) \<Longrightarrow> is_zero (vy v) \<Longrightarrow> flt (Fin 0) len
        \<Longrightarrow> Vector2_scale_to v (FloatV len) = Inl ZeroDivisionError"
    using pos q [of len] by (simp add: Vector2_scale_to_def Vector2_rmul_float)
  have n: "is_zero (vx v) \<Longrightarrow> is_zero (vy v) \<Longrightarrow> Vector2_normalize v = Inl ZeroDivisionError"
    using q [of "Fin 1"]
    unfolding Vector2_normalize_def Vector2_scale_to_def i0
    by (simp add: feq_def Vector2_rmul_float)
  show ?thesis
    using d [of "FloatV (Fin 0)" "Fin 0" v] d [of "FloatV NZero" NZero v]
      d [OF i0(1), of v] s n
    by simp
qed

theorem division_by_zero_raises_witness:
  "Vector2_scale_to \<lparr>vcls = Vector2_cls, vx = Fin 0, vy = Fin 0\<rparr> (FloatV (Fin 5))
     = Inl ZeroDivisionError
   \<and> Vector2_normalize \<lparr>vcls = Vector2_cls, vx = Fin 0, vy = Fin 0\<rparr> = Inl ZeroDivisionError"
  using division_by_zero_raises [of "\<lparr>vcls = Vector2_cls, vx = Fin 0, vy = Fin 0\<rparr>" "Fin 5"]
  by simp

lemma issubclass_refl: "issubclass c c"
  by (simp add: issubclass_def mro_def)



section \<open>The class of the result of \<^verbatim>\<open>+\<close> and \<^verbatim>\<open>-\<close>\<close>



section \<open>Coercion of a vector\<close>




section \<open>Truncation\<close>

text \<open>
  \<^verbatim>\<open>float\<close> does not accept every int: \<^verbatim>\<open>truncate\<close> with the maximal length
  \<^verbatim>\<open>10**400\<close> raises \<^verbatim>\<open>OverflowError\<close>.
\<close>

lemma truncate_int_overflow:
  "Vector2_truncate v (IntV (10 ^ 400)) = Inl OverflowError"
  by (simp add: Vector2_truncate_def float_int_limit_def)



section \<open>Operands that cannot be coerced\<close>

text \<open>
  When \<^verbatim>\<open>convert\<close> raises \<^verbatim>\<open>ValueError\<close>, \<^verbatim>\<open>__add__\<close> and \<^verbatim>\<open>__sub__\<close> answer
  \<^verbatim>\<open>NotImplemented\<close>, and \<^verbatim>\<open>dot\<close> lets every exception of \<^verbatim>\<open>convert\<close> pass.
\<close>

lemma add_sub_value_error:
  "Vector2_convert Vector2_cls b = Inl ValueError \<Longrightarrow>
     Vector2_add a b = Inr NotImplemented \<and> Vector2_sub a b = Inr NotImplemented"
  by (simp add: Vector2_add_def Vector2_sub_def)

lemma dot_propagates:
  "Vector2_convert Vector2_cls b = Inl e \<Longrightarrow> Vector2_dot a b = Inl e"
  by (simp add: Vector2_dot_def)

text \<open>
  Claim C7 says that for every value \<open>b\<close> that cannot be coerced to a vector,
  add and subtract answer \<^verbatim>\<open>NotImplemented\<close> rather than raise. \<^verbatim>\<open>__add__\<close> and
  \<^verbatim>\<open>__sub__\<close> catch \<^verbatim>\<open>ValueError\<close> only, where \<^verbatim>\<open>__mul__\<close> and \<^verbatim>\<open>__eq__\<close> catch
  \<^verbatim>\<open>TypeError\<close> too. For the pair \<^verbatim>\<open>(None, None)\<close> the coercion fails with
  \<^verbatim>\<open>TypeError\<close>, raised by \<^verbatim>\<open>float(None)\<close> in the constructor, and both
  operators raise it.
\<close>

theorem add_type_error_propagates:
  "Vector2_add \<lparr>vcls = Vector2_cls, vx = Fin 1, vy = Fin 2\<rparr>
     (TupleV [ObjV \<lparr>cname = ''NoneType'', ancestors = [''object'']\<rparr> (Inl TypeError),
              ObjV \<lparr>cname = ''NoneType'', ancestors = [''object'']\<rparr> (Inl TypeError)])
     = Inl TypeError
   \<and> Vector2_sub \<lparr>vcls = Vector2_cls, vx = Fin 1, vy = Fin 2\<rparr>
     (TupleV [ObjV \<lparr>cname = ''NoneType'', ancestors = [''object'']\<rparr> (Inl TypeError),
              ObjV \<lparr>cname = ''NoneType'', ancestors = [''object'']\<rparr> (Inl TypeError)])
     = Inl TypeError"
  by (simp add: Vector2_add_def Vector2_sub_def construct_def set_coords_def)

section \<open>Invalid constructor arguments\<close>

text \<open>
  A mix of positional and keyword arguments, no argument at all and more than
  two positional arguments raise \<^verbatim>\<open>TypeError\<close>.
\<close>

lemma init_arity_errors:
  "(args \<noteq> [] \<and> kwargs \<noteq> [] \<longrightarrow> Vector2_init cls args kwargs = Inl TypeError)
   \<and> Vector2_init cls [] [] = Inl TypeError
   \<and> (2 < length args \<longrightarrow> Vector2_init cls args kwargs = Inl TypeError)"
  by (simp add: Vector2_init_def)

text \<open>
  Claim C8 says that every invalid combination of constructor arguments fails
  with the error for invalid arguments (\<^verbatim>\<open>TypeError\<close>), keyword arguments other
  than exactly \<open>x\<close> and \<open>y\<close> included. For those the code builds the message of
  its \<^verbatim>\<open>TypeError\<close> with \<^verbatim>\<open>kwargs.keys().join\<close>, which raises
  \<^verbatim>\<open>AttributeError\<close>: \<^verbatim>\<open>Vector2(x=1)\<close> and \<^verbatim>\<open>Vector2(x=1, z=2)\<close> fail with
  \<^verbatim>\<open>AttributeError\<close>.
\<close>

theorem init_bad_keywords_attribute_error:
  "Vector2_init Vector2_cls [] [(''x'', IntV 1)] = Inl AttributeError
   \<and> Vector2_init Vector2_cls [] [(''x'', IntV 1), (''z'', IntV 2)] = Inl AttributeError"
  by (simp add: Vector2_init_def doubleton_eq_iff)

section \<open>Operations on one vector keep its class\<close>

lemma scale_by_class: "Vector2_scale_by v k = Inr w \<Longrightarrow> vcls w = vcls v"
  by (auto simp: Vector2_scale_by_def construct_floats split: sum.splits)

lemma truediv_class: "Vector2_truediv v k = Inr w \<Longrightarrow> vcls w = vcls v"
  by (auto simp: Vector2_truediv_def construct_floats split: sum.splits)

lemma rotate_class: "Vector2_rotate v a = Inr w \<Longrightarrow> vcls w = vcls v"
  by (auto simp: Vector2_rotate_def Let_def construct_floats split: sum.splits prod.splits)

lemma scale_to_class: "Vector2_scale_to v l = Inr w \<Longrightarrow> vcls w = vcls v"
  by (auto simp: Vector2_scale_to_def Vector2_rmul_float construct_zero
      dest!: truediv_class split: sum.splits if_splits)

lemma truncate_class: "Vector2_truncate v m = Inr w \<Longrightarrow> vcls w = vcls v"
  by (auto simp: Vector2_truncate_def dest: scale_to_class split: sum.splits if_splits)

text \<open>
  Claim C9: every operation that takes one vector and returns a vector
  (\<^verbatim>\<open>scale_by\<close>, negation, division by a scalar, \<^verbatim>\<open>rotate\<close>, \<^verbatim>\<open>truncate\<close>,
  \<^verbatim>\<open>scale_to\<close>, \<^verbatim>\<open>normalize\<close>) returns an instance of the concrete class of
  its receiver, so an instance of a subclass of \<^verbatim>\<open>Vector2\<close> stays an instance
  of that subclass.
\<close>

theorem receiver_class_preserved:
  "(Vector2_scale_by v k = Inr w1 \<longrightarrow> vcls w1 = vcls v)
   \<and> (Vector2_neg v = Inr w2 \<longrightarrow> vcls w2 = vcls v)
   \<and> (Vector2_truediv v d = Inr w3 \<longrightarrow> vcls w3 = vcls v)
   \<and> (Vector2_rotate v angle = Inr w4 \<longrightarrow> vcls w4 = vcls v)
   \<and> (Vector2_truncate v max_length = Inr w5 \<longrightarrow> vcls w5 = vcls v)
   \<and> (Vector2_scale_to v len = Inr w6 \<longrightarrow> vcls w6 = vcls v)
   \<and> (Vector2_normalize v = Inr w7 \<longrightarrow> vcls w7 = vcls v)"
  using scale_by_class [of v k w1] scale_by_class [of v "IntV (- 1)" w2]
    truediv_class [of v d w3] rotate_class [of v angle w4]
    truncate_class [of v max_length w5]
    scale_to_class [of v len w6] scale_to_class [of v "IntV 1" w7]
  by (simp add: Vector2_neg_def Vector2_normalize_def)

theorem receiver_class_preserved_witness:
  "Vector2_scale_by \<lparr>vcls = \<lparr>cname = ''Sub'', ancestors = [''Vector2'', ''object'']\<rparr>, vx = Fin 3, vy = Fin 4\<rparr> (IntV 2)
     = Inr \<lparr>vcls = \<lparr>cname = ''Sub'', ancestors = [''Vector2'', ''object'']\<rparr>, vx = Fin 6, vy = Fin 8\<rparr>
   \<and> Vector2_neg \<lparr>vcls = \<lparr>cname = ''Sub'', ancestors = [''Vector2'', ''object'']\<rparr>, vx = Fin 3, vy = Fin 4\<rparr>
     = Inr \<lparr>vcls = \<lparr>cname = ''Sub'', ancestors = [''Vector2'', ''object'']\<rparr>, vx = Fin (- 3), vy = Fin (- 4)\<rparr>
   \<and> Vector2_truediv \<lparr>vcls = \<lparr>cname = ''Sub'', ancestors = [''Vector2'', ''object'']\<rparr>, vx = Fin 3, vy = Fin 4\<rparr> (IntV 2)
     = Inr \<lparr>vcls = \<lparr>cname = ''Sub'', ancestors = [''Vector2'', ''object'']\<rparr>, vx = Fin (3 / 2), vy = Fin 2\<rparr>
   \<and> Vector2_rotate \<lparr>vcls = \<lparr>cname = ''Sub'', ancestors = [''Vector2'', ''object'']\<rparr>, vx = Fin 3, vy = Fin 4\<rparr> (IntV 0)
     = Inr \<lparr>vcls = \<lparr>cname = ''Sub'', ancestors = [''Vector2'', ''object'']\<rparr>, vx = Fin 3, vy = Fin 4\<rparr>
   \<and> Vector2_truncate \<lparr>vcls = \<lparr>cname = ''Sub'', ancestors = [''Vector2'', ''object'']\<rparr>, vx = Fin 3, vy = Fin 4\<rparr> (IntV 2)
     = Inr \<lparr>vcls = \<lparr>cname = ''Sub'', ancestors = [''Vector2'', ''object'']\<rparr>, vx = Fin (6 / 5), vy = Fin (8 / 5)\<rparr>
   \<and> Vector2_scale_to \<lparr>vcls = \<lparr>cname = ''Sub'', ancestors = [''Vector2'', ''object'']\<rparr>, vx = Fin 3, vy = Fin 4\<rparr> (IntV 0)
     = Inr \<lparr>vcls = \<lparr>cname = ''Sub'', ancestors = [''Vector2'', ''object'']\<rparr>, vx = Fin 0, vy = Fin 0\<rparr>
   \<and> Vector2_normalize \<lparr>vcls = \<lparr>cname = ''Sub'', ancestors = [''Vector2'', ''object'']\<rparr>, vx = Fin 3, vy = Fin 4\<rparr>
     = Inr \<lparr>vcls = \<lparr>cname = ''Sub'', ancestors = [''Vector2'', ''object'']\<rparr>, vx = Fin (3 / 5), vy = Fin (4 / 5)\<rparr>"
proof -
  let ?S = "\<lparr>cname = ''Sub'', ancestors = [''Vector2'', ''object'']\<rparr>"
  let ?v = "\<lparr>vcls = ?S, vx = Fin 3, vy = Fin 4\<rparr>"
  have l: "Vector2_length ?v = Fin 5"
    by (simp add: Vector2_length_def hypot_3_4)
  have 1: "\<exists>w. Vector2_scale_by ?v (IntV 2) = Inr w \<and> vx w = Fin 6 \<and> vy w = Fin 8"
    by (simp add: Vector2_scale_by_def construct_floats lt_float_int_limit)
  have 2: "\<exists>w. Vector2_neg ?v = Inr w \<and> vx w = Fin (- 3) \<and> vy w = Fin (- 4)"
    by (simp add: Vector2_neg_def Vector2_scale_by_def construct_floats lt_float_int_limit)
  have 3: "\<exists>w. Vector2_truediv ?v (IntV 2) = Inr w \<and> vx w = Fin (3 / 2) \<and> vy w = Fin 2"
    by (simp add: Vector2_truediv_def float_truediv_def construct_floats lt_float_int_limit)
  have 4: "\<exists>w. Vector2_rotate ?v (IntV 0) = Inr w \<and> vx w = Fin 3 \<and> vy w = Fin 4"
    by (simp add: Vector2_rotate_def Vector2_trig_def fgt_def fsub_def copysign_def
        zero_signed_def construct_floats lt_float_int_limit)
  have 6: "\<exists>w. Vector2_scale_to ?v (IntV 0) = Inr w \<and> vx w = Fin 0 \<and> vy w = Fin 0"
    by (simp add: Vector2_scale_to_def feq_def construct_zero lt_float_int_limit)
  have s: "\<And>n. 0 < n \<Longrightarrow> \<exists>w. Vector2_scale_to ?v (FloatV (Fin n)) = Inr w
        \<and> vx w = Fin (3 * n / 5) \<and> vy w = Fin (4 * n / 5)"
    by (simp add: Vector2_scale_to_def feq_def Vector2_rmul_float Vector2_truediv_def
        float_truediv_def l construct_floats)
  have 5: "\<exists>w. Vector2_truncate ?v (IntV 2) = Inr w \<and> vx w = Fin (6 / 5) \<and> vy w = Fin (8 / 5)"
    using s [of 2] by (simp add: Vector2_truncate_def l fle_def feq_def lt_float_int_limit)
  have 7: "\<exists>w. Vector2_normalize ?v = Inr w \<and> vx w = Fin (3 / 5) \<and> vy w = Fin (4 / 5)"
    by (simp add: Vector2_normalize_def Vector2_scale_to_def feq_def Vector2_rmul_def
        Vector2_mul_def Vector2_scale_by_def Vector2_truediv_def float_truediv_def l
        construct_floats lt_float_int_limit)
  from 1 2 3 4 5 6 7 obtain w1 w2 w3 w4 w5 w6 w7 where
    r: "Vector2_scale_by ?v (IntV 2) = Inr w1" "Vector2_neg ?v = Inr w2"
       "Vector2_truediv ?v (IntV 2) = Inr w3" "Vector2_rotate ?v (IntV 0) = Inr w4"
       "Vector2_truncate ?v (IntV 2) = Inr w5" "Vector2_scale_to ?v (IntV 0) = Inr w6"
       "Vector2_normalize ?v = Inr w7"
    and c: "vx w1 = Fin 6" "vy w1 = Fin 8" "vx w2 = Fin (- 3)" "vy w2 = Fin (- 4)"
       "vx w3 = Fin (3 / 2)" "vy w3 = Fin 2" "vx w4 = Fin 3" "vy w4 = Fin 4"
       "vx w5 = Fin (6 / 5)" "vy w5 = Fin (8 / 5)" "vx w6 = Fin 0" "vy w6 = Fin 0"
       "vx w7 = Fin (3 / 5)" "vy w7 = Fin (4 / 5)"
    by blast
  have k: "vcls w1 = ?S" "vcls w2 = ?S" "vcls w3 = ?S" "vcls w4 = ?S" "vcls w5 = ?S"
    "vcls w6 = ?S" "vcls w7 = ?S"
    using receiver_class_preserved
      [of ?v "IntV 2" w1 w2 "IntV 2" w3 "IntV 0" w4 "IntV 2" w5 "IntV 0" w6 w7] r
    by simp_all
  have e: "\<And>w a b. vcls w = ?S \<Longrightarrow> vx w = a \<Longrightarrow> vy w = b \<Longrightarrow> w = \<lparr>vcls = ?S, vx = a, vy = b\<rparr>"
    by auto
  show ?thesis
    unfolding r
    using e [OF k(1) c(1,2)] e [OF k(2) c(3,4)] e [OF k(3) c(5,6)] e [OF k(4) c(7,8)]
      e [OF k(5) c(9,10)] e [OF k(6) c(11,12)] e [OF k(7) c(13,14)]
    by simp
qed

section \<open>The mapping form and back\<close>

lemma convert_asdict:
  "Vector2_convert cls (DictV (Vector2_asdict v)) = Inr \<lparr>vcls = cls, vx = vx v, vy = vy v\<rparr>"
  by (simp add: Vector2_asdict_def dict_has_def dict_len_def dict_get_def construct_floats)

lemma eq_vec:
  "Vector2_eq a (VecV b) = Inr (Value (feq (vx a) (vx b) \<and> feq (vy a) (vy b)))"
  by (simp add: Vector2_eq_def construct_floats)

text \<open>
  Claim C10 says that for every vector \<open>v\<close> the vector that \<^verbatim>\<open>convert\<close> makes
  of \<^verbatim>\<open>asdict(v)\<close> is equal to \<open>v\<close>. Equality of vectors compares the
  coordinates as floats, and a NaN is not equal to itself: for the vector
  \<open>(NaN, 0)\<close> the round trip yields the same coordinates, and \<^verbatim>\<open>__eq__\<close>
  answers \<^verbatim>\<open>False\<close>.
\<close>

theorem asdict_roundtrip_nan_counterexample:
  "Vector2_convert Vector2_cls (DictV (Vector2_asdict \<lparr>vcls = Vector2_cls, vx = NaN, vy = Fin 0\<rparr>))
     = Inr \<lparr>vcls = Vector2_cls, vx = NaN, vy = Fin 0\<rparr>
   \<and> Vector2_eq \<lparr>vcls = Vector2_cls, vx = NaN, vy = Fin 0\<rparr>
        (VecV \<lparr>vcls = Vector2_cls, vx = NaN, vy = Fin 0\<rparr>) = Inr (Value False)"
  by (simp add: Vector2_asdict_def dict_has_def dict_len_def dict_get_def construct_floats
      Vector2_eq_def issubclass_refl feq_def)

text \<open>
  Claim C10, as amended: for every vector \<open>v\<close> whose coordinates are not NaN
  and every target class, \<^verbatim>\<open>convert(asdict(v))\<close> is the instance of the target
  class with the coordinates of \<open>v\<close>, and it is equal to \<open>v\<close> (\<^verbatim>\<open>__eq__\<close>
  answers \<^verbatim>\<open>True\<close> in both directions).
\<close>

theorem asdict_roundtrip:
  "vx v \<noteq> NaN \<Longrightarrow> vy v \<noteq> NaN \<Longrightarrow>
   Vector2_convert cls (DictV (Vector2_asdict v)) = Inr \<lparr>vcls = cls, vx = vx v, vy = vy v\<rparr>
   \<and> Vector2_eq \<lparr>vcls = cls, vx = vx v, vy = vy v\<rparr> (VecV v) = Inr (Value True)
   \<and> Vector2_eq v (VecV \<lparr>vcls = cls, vx = vx v, vy = vy v\<rparr>) = Inr (Value True)"
  using convert_asdict [of cls v]
  by (simp add: eq_vec feq_def del: Vector2_convert.simps)

theorem asdict_roundtrip_witness:
  "Vector2_eq \<lparr>vcls = Vector2_cls, vx = Fin 3, vy = PInf\<rparr>
      (VecV \<lparr>vcls = \<lparr>cname = ''Sub'', ancestors = [''Vector2'', ''object'']\<rparr>, vx = Fin 3, vy = PInf\<rparr>)
     = Inr (Value True)
   \<and> Vector2_convert Vector2_cls
       (DictV (Vector2_asdict \<lparr>vcls = \<lparr>cname = ''Sub'', ancestors = [''Vector2'', ''object'']\<rparr>, vx = Fin 3, vy = PInf\<rparr>))
     = Inr \<lparr>vcls = Vector2_cls, vx = Fin 3, vy = PInf\<rparr>"
  using asdict_roundtrip [of "\<lparr>vcls = \<lparr>cname = ''Sub'', ancestors = [''Vector2'', ''object'']\<rparr>, vx = Fin 3, vy = PInf\<rparr>" Vector2_cls]
  by (simp del: Vector2_convert.simps)

section \<open>The angle between two vectors\<close>

lemma atan2_real_range: "- pi \<le> atan2_real y x \<and> atan2_real y x \<le> pi"
proof -
  have b: "- (pi / 2) < arctan (y / x) \<and> arctan (y / x) < pi / 2"
    using arctan_lbound arctan_ubound by blast
  have p: "x \<le> 0 \<Longrightarrow> 0 \<le> y \<Longrightarrow> arctan (y / x) \<le> 0"
    by (simp add: arctan_le_zero_iff divide_nonneg_nonpos)
  have n: "x \<le> 0 \<Longrightarrow> y \<le> 0 \<Longrightarrow> 0 \<le> arctan (y / x)"
    by (simp add: zero_le_arctan_iff divide_nonpos_nonpos)
  show ?thesis
  proof (cases "0 < x")
    case True
    then show ?thesis using b pi_gt_zero by (simp add: atan2_real_def)
  next
    case False
    then have x: "x \<le> 0" by simp
    show ?thesis
    proof (cases "0 \<le> y")
      case True
      then show ?thesis using b p [OF x] False pi_gt_zero by (simp add: atan2_real_def)
    next
      case False
      then have "y \<le> 0" by simp
      then show ?thesis
        using b n [OF x] False \<open>\<not> 0 < x\<close> pi_gt_zero by (simp add: atan2_real_def)
    qed
  qed
qed

lemma pi_fraction_bounds:
  "- (pi / 2) \<le> pi" "- (pi / 4) \<le> pi" "- (3 * pi / 4) \<le> pi"
  "- pi \<le> pi / 2" "- pi \<le> pi / 4" "- pi \<le> 3 * pi / 4"
  "pi / 2 \<le> pi" "pi / 4 \<le> pi" "3 * pi / 4 \<le> pi" "- pi \<le> 0" "- pi \<le> pi"
  using pi_gt_zero by linarith+

lemma atan2_finite:
  "y \<noteq> NaN \<Longrightarrow> x \<noteq> NaN \<Longrightarrow>
     is_finite (atan2 y x) \<and> - pi \<le> fval (atan2 y x) \<and> fval (atan2 y x) \<le> pi"
  using atan2_real_range
  by (cases y; cases x) (simp_all add: zero_signed_def pi_fraction_bounds)

lemma fneg_nan: "fneg a \<noteq> NaN \<longleftrightarrow> a \<noteq> NaN"
  by (cases a) auto

lemma fadd_finite:
  "is_finite a \<Longrightarrow> is_finite b \<Longrightarrow>
     is_finite (fadd a b) \<and> fval (fadd a b) = fval a + fval b"
  by (cases a; cases b) simp_all

lemma fneg_finite: "is_finite a \<Longrightarrow> is_finite (fneg a) \<and> fval (fneg a) = - fval a"
  by (cases a) simp_all

lemma fsub_finite:
  "is_finite a \<Longrightarrow> is_finite b \<Longrightarrow>
     is_finite (fsub a b) \<and> fval (fsub a b) = fval a - fval b"
  using fadd_finite [of a "fneg b"] fneg_finite [of b] by (simp add: fsub_def)

lemma degrees_finite:
  "is_finite a \<Longrightarrow> is_finite (degrees a) \<and> fval (degrees a) = fval a * (180 / pi)"
  by (cases a) simp_all

lemma flt_finite: "is_finite a \<Longrightarrow> is_finite b \<Longrightarrow> flt a b = (fval a < fval b)"
  by (cases a; cases b) simp_all

lemma feq_finite: "is_finite a \<Longrightarrow> is_finite b \<Longrightarrow> feq a b = (fval a = fval b)"
  by (cases a; cases b) (auto simp: feq_def)

lemma fle_finite: "is_finite a \<Longrightarrow> is_finite b \<Longrightarrow> fle a b = (fval a \<le> fval b)"
  by (auto simp: fle_def flt_finite feq_finite)

lemma normalise_range:
  assumes f: "is_finite rv" and lo: "- 360 \<le> fval rv" and hi: "fval rv \<le> 360"
  shows "flt (Fin (- 180))
           (if fle rv (Fin (- 180)) then fadd rv (Fin 360)
            else if fgt rv (Fin 180) then fsub rv (Fin 360) else rv)
         \<and> fle (if fle rv (Fin (- 180)) then fadd rv (Fin 360)
                else if fgt rv (Fin 180) then fsub rv (Fin 360) else rv)
               (Fin 180)"
proof -
  have c: "is_finite (Fin (- 180))" "is_finite (Fin 180)" "is_finite (Fin 360)"
    by simp_all
  have a: "is_finite (fadd rv (Fin 360))" "fval (fadd rv (Fin 360)) = fval rv + 360"
    using fadd_finite [OF f c(3)] by simp_all
  have s: "is_finite (fsub rv (Fin 360))" "fval (fsub rv (Fin 360)) = fval rv - 360"
    using fsub_finite [OF f c(3)] by simp_all
  show ?thesis
    using lo hi
    by (simp add: fgt_def flt_finite fle_finite f a s)
qed

lemma convert_vec_coords:
  "\<exists>w. Vector2_convert cls (VecV v) = Inr w \<and> vx w = vx v \<and> vy w = vy v"
  by (simp add: construct_floats)

lemma degrees_bounds:
  fixes t1 t2 :: real
  assumes "- pi \<le> t1" "t1 \<le> pi" "- pi \<le> t2" "t2 \<le> pi"
  shows "- 360 \<le> (t1 - t2) * (180 / pi) \<and> (t1 - t2) * (180 / pi) \<le> 360"
proof -
  have k: "0 \<le> 180 / pi" using pi_gt_zero by simp
  have "(t1 - t2) * (180 / pi) \<le> (2 * pi) * (180 / pi)"
    using assms k by (intro mult_right_mono) auto
  moreover have "(- (2 * pi)) * (180 / pi) \<le> (t1 - t2) * (180 / pi)"
    using assms k by (intro mult_right_mono) auto
  moreover have "(2 * pi) * (180 / pi) = 360" by simp
  moreover have "(- (2 * pi)) * (180 / pi) = - 360" by simp
  ultimately show ?thesis by simp
qed

text \<open>
  The sign of zero decides the angle of the zero vector: \<^verbatim>\<open>-self.y\<close> is the
  negative zero, and \<^verbatim>\<open>atan2(0.0, -0.0)\<close> is \<open>pi\<close>.
\<close>

lemma angle_zero_vector:
  "Vector2_angle \<lparr>vcls = Vector2_cls, vx = Fin 0, vy = Fin 0\<rparr>
     (VecV \<lparr>vcls = Vector2_cls, vx = Fin 1, vy = Fin 0\<rparr>) = Inr (Fin (- 90))"
  by (simp add: Vector2_angle_def issubclass_refl fsub_def fle_def feq_def fgt_def)

text \<open>
  Claim C3 says that for every pair of vectors the angle is the difference of
  the two \<^verbatim>\<open>atan2\<close> values in degrees, normalised, and so always lies in the
  interval from \<open>-180\<close> (excluded) to \<open>180\<close> (included). A NaN coordinate goes
  through \<^verbatim>\<open>atan2\<close>, the subtraction and \<^verbatim>\<open>degrees\<close>, and both comparisons
  of the normalisation are false for it: the angle of \<open>(NaN, 0)\<close> and \<open>(1, 0)\<close>
  is NaN, which lies in no interval.
\<close>

theorem angle_nan_counterexample:
  "Vector2_angle \<lparr>vcls = Vector2_cls, vx = NaN, vy = Fin 0\<rparr>
     (VecV \<lparr>vcls = Vector2_cls, vx = Fin 1, vy = Fin 0\<rparr>) = Inr NaN"
  by (simp add: Vector2_angle_def issubclass_refl fsub_def fle_def feq_def fgt_def)

text \<open>
  Claim C3, as amended: for every pair of vectors \<open>a\<close> and \<open>b\<close> whose
  coordinates are not NaN, \<^verbatim>\<open>angle(a, b)\<close> returns the float
  \<^verbatim>\<open>degrees(atan2(b.x, -b.y) - atan2(a.x, -a.y))\<close> with \<open>360\<close> added when the
  raw value is at most \<open>-180\<close> and \<open>360\<close> subtracted when it is greater than
  \<open>180\<close>, and the float returned is greater than \<open>-180\<close> and at most \<open>180\<close>.
\<close>

theorem angle_formula_and_range:
  assumes "vx a \<noteq> NaN" "vy a \<noteq> NaN" "vx b \<noteq> NaN" "vy b \<noteq> NaN"
  shows "\<exists>f. Vector2_angle a (VecV b) = Inr f
     \<and> flt (Fin (- 180)) f \<and> fle f (Fin 180)
     \<and> f =
         (let rv = degrees (fsub (atan2 (vx b) (fneg (vy b))) (atan2 (vx a) (fneg (vy a))))
          in if fle rv (Fin (- 180)) then fadd rv (Fin 360)
             else if fgt rv (Fin 180) then fsub rv (Fin 360)
             else rv)"
proof -
  let ?t1 = "atan2 (vx b) (fneg (vy b))"
  let ?t2 = "atan2 (vx a) (fneg (vy a))"
  let ?rv = "degrees (fsub ?t1 ?t2)"
  let ?f = "if fle ?rv (Fin (- 180)) then fadd ?rv (Fin 360)
            else if fgt ?rv (Fin 180) then fsub ?rv (Fin 360) else ?rv"
  obtain b' where b': "Vector2_convert Vector2_cls (VecV b) = Inr b'" "vx b' = vx b" "vy b' = vy b"
    using convert_vec_coords [of Vector2_cls b] by blast
  have t1: "is_finite ?t1" "- pi \<le> fval ?t1" "fval ?t1 \<le> pi"
    using atan2_finite [of "vx b" "fneg (vy b)"] assms fneg_nan [of "vy b"] by simp_all
  have t2: "is_finite ?t2" "- pi \<le> fval ?t2" "fval ?t2 \<le> pi"
    using atan2_finite [of "vx a" "fneg (vy a)"] assms fneg_nan [of "vy a"] by simp_all
  have d: "is_finite (fsub ?t1 ?t2)" "fval (fsub ?t1 ?t2) = fval ?t1 - fval ?t2"
    using fsub_finite [OF t1(1) t2(1)] by simp_all
  have rv: "is_finite ?rv" "fval ?rv = (fval ?t1 - fval ?t2) * (180 / pi)"
    using degrees_finite [OF d(1)] d(2) by simp_all
  have bounds: "- 360 \<le> fval ?rv" "fval ?rv \<le> 360"
    using degrees_bounds [OF t1(2,3) t2(2,3)] rv(2) by simp_all
  have range: "flt (Fin (- 180)) ?f \<and> fle ?f (Fin 180)"
    by (rule normalise_range [OF rv(1) bounds])
  have val: "Vector2_angle a (VecV b) = Inr ?f"
    unfolding Vector2_angle_def b' sum.case Let_def by simp
  show ?thesis
    using val range unfolding Let_def by blast
qed

theorem angle_formula_and_range_witness:
  "Vector2_angle \<lparr>vcls = Vector2_cls, vx = Fin 1, vy = Fin 0\<rparr>
       (VecV \<lparr>vcls = Vector2_cls, vx = Fin 0, vy = Fin 1\<rparr>) = Inr (Fin 90)
   \<and> (\<exists>f. Vector2_angle \<lparr>vcls = Vector2_cls, vx = Fin 1, vy = Fin 0\<rparr>
          (VecV \<lparr>vcls = Vector2_cls, vx = Fin 0, vy = Fin 1\<rparr>) = Inr f
       \<and> flt (Fin (- 180)) f \<and> fle f (Fin 180))"
proof -
  let ?a = "\<lparr>vcls = Vector2_cls, vx = Fin 1, vy = Fin 0\<rparr>"
  let ?b = "\<lparr>vcls = Vector2_cls, vx = Fin 0, vy = Fin 1\<rparr>"
  have v: "Vector2_angle ?a (VecV ?b) = Inr (Fin 90)"
    by (simp add: Vector2_angle_def issubclass_refl fsub_def fle_def feq_def fgt_def)
  have h: "vx ?a \<noteq> NaN" "vy ?a \<noteq> NaN" "vx ?b \<noteq> NaN" "vy ?b \<noteq> NaN"
    by simp_all
  obtain f where "Vector2_angle ?a (VecV ?b) = Inr f" "flt (Fin (- 180)) f" "fle f (Fin 180)"
    using angle_formula_and_range [OF h] by blast
  with v show ?thesis by blast
qed

end
